theory Spec2Isabelle
  imports Complex_Main
begin

section \<open>JavaScript values and the built-ins that index.js calls\<close>

text \<open>
  The component in \<^verbatim>\<open>src/index.js\<close> is plain JavaScript, so its behaviour rests on the
  language's coercions: \<^verbatim>\<open>parseInt\<close>, \<^verbatim>\<open>Number\<close>, truthiness, \<^verbatim>\<open>typeof\<close>, the relational
  operators and property access. This section models the part of them the file uses.

  Numbers are NaN, the two infinities, or an exact rational. The model therefore agrees with
  IEEE doubles wherever the values involved are exactly representable, which covers every
  integer of magnitude below \<open>2 ^ 53\<close> (pixel widths, column counts, breakpoints); rounding
  of larger or non-dyadic values is not modelled, and negative zero is identified with zero
  (they are equal, equally falsy and print alike).
\<close>

datatype jsnum = NaN | PInf | NInf | Fin rat

text \<open>
  A configured value is a primitive or a plain object. An object is its list of own
  enumerable properties in \<^verbatim>\<open>for ... in\<close> order; a key is looked up at its first binding.
  Arrays, functions and objects with a \<^verbatim>\<open>toString\<close> of their own are outside the model.
\<close>

datatype jsval =
    JUndefined
  | JNull
  | JBool bool
  | JNum jsnum
  | JStr string
  | JObj "(string \<times> jsval) list"

datatype js_error = TypeError | RangeError

subsection \<open>Relational operators on numbers\<close>

fun num_lt :: "jsnum \<Rightarrow> jsnum \<Rightarrow> bool" where
  "num_lt (Fin a) (Fin b) = (a < b)"
| "num_lt NaN _ = False"
| "num_lt _ NaN = False"
| "num_lt _ NInf = False"
| "num_lt PInf _ = False"
| "num_lt _ _ = True"

fun num_eq :: "jsnum \<Rightarrow> jsnum \<Rightarrow> bool" where
  "num_eq NaN _ = False"
| "num_eq _ NaN = False"
| "num_eq a b = (a = b)"

definition num_le :: "jsnum \<Rightarrow> jsnum \<Rightarrow> bool" where
  \<comment> \<open>\<^verbatim>\<open>a <= b\<close>\<close>
  "num_le a b = (num_lt a b \<or> num_eq a b)"

definition num_truthy :: "jsnum \<Rightarrow> bool" where
  "num_truthy n = (n \<noteq> NaN \<and> n \<noteq> Fin 0)"

definition num_or :: "jsnum \<Rightarrow> jsnum \<Rightarrow> jsnum" where
  \<comment> \<open>\<^verbatim>\<open>a || b\<close> on two numbers\<close>
  "num_or a b = (if num_truthy a then a else b)"

definition Math_max :: "jsnum \<Rightarrow> jsnum \<Rightarrow> jsnum" where
  "Math_max a b = (if a = NaN \<or> b = NaN then NaN else if num_lt a b then b else a)"


subsection \<open>Truthiness, \<^verbatim>\<open>typeof\<close> and property access\<close>

fun truthy :: "jsval \<Rightarrow> bool" where
  "truthy JUndefined = False"
| "truthy JNull = False"
| "truthy (JBool b) = b"
| "truthy (JNum n) = num_truthy n"
| "truthy (JStr s) = (s \<noteq> [])"
| "truthy (JObj _) = True"

definition js_or :: "jsval \<Rightarrow> jsval \<Rightarrow> jsval" where
  \<comment> \<open>\<^verbatim>\<open>a || b\<close>\<close>
  "js_or a b = (if truthy a then a else b)"

fun typeof :: "jsval \<Rightarrow> string" where
  "typeof JUndefined = ''undefined''"
| "typeof JNull = ''object''"
| "typeof (JBool _) = ''boolean''"
| "typeof (JNum _) = ''number''"
| "typeof (JStr _) = ''string''"
| "typeof (JObj _) = ''object''"

definition get_prop :: "(string \<times> jsval) list \<Rightarrow> string \<Rightarrow> jsval" where
  \<comment> \<open>\<^verbatim>\<open>obj[key]\<close> on a plain object: a missing key reads as \<^verbatim>\<open>undefined\<close>\<close>
  "get_prop props key = (case map_of props key of None \<Rightarrow> JUndefined | Some v \<Rightarrow> v)"

definition for_in_keys :: "(string \<times> jsval) list \<Rightarrow> string list" where
  \<comment> \<open>the keys \<^verbatim>\<open>for (let k in obj)\<close> visits\<close>
  "for_in_keys props = map fst props"

subsection \<open>Digits\<close>

definition digit_table :: "(char \<times> nat) list" where
  "digit_table =
     [(CHR ''0'', 0), (CHR ''1'', 1), (CHR ''2'', 2), (CHR ''3'', 3), (CHR ''4'', 4),
      (CHR ''5'', 5), (CHR ''6'', 6), (CHR ''7'', 7), (CHR ''8'', 8), (CHR ''9'', 9),
      (CHR ''a'', 10), (CHR ''b'', 11), (CHR ''c'', 12), (CHR ''d'', 13), (CHR ''e'', 14),
      (CHR ''f'', 15),
      (CHR ''A'', 10), (CHR ''B'', 11), (CHR ''C'', 12), (CHR ''D'', 13), (CHR ''E'', 14),
      (CHR ''F'', 15)]"

definition digit_of :: "nat \<Rightarrow> char \<Rightarrow> nat option" where
  \<comment> \<open>the value of a character as a digit of the given radix (2, 8, 10 or 16)\<close>
  "digit_of radix c =
     (case map_of digit_table c of
        Some d \<Rightarrow> if d < radix then Some d else None
      | None \<Rightarrow> None)"

fun leading_digits :: "nat \<Rightarrow> string \<Rightarrow> nat list" where
  "leading_digits radix [] = []"
| "leading_digits radix (c # cs) =
     (case digit_of radix c of
        Some d \<Rightarrow> d # leading_digits radix cs
      | None \<Rightarrow> [])"

definition digits_value :: "nat \<Rightarrow> nat list \<Rightarrow> nat" where
  "digits_value radix ds = foldl (\<lambda>acc d. acc * radix + d) 0 ds"

definition is_ws :: "char \<Rightarrow> bool" where
  \<comment> \<open>ASCII white space and line terminators\<close>
  "is_ws c = (c \<in> set [CHR '' '', CHR 0x09, CHR 0x0A, CHR 0x0B, CHR 0x0C, CHR 0x0D])"

definition has_prefix :: "string \<Rightarrow> string list \<Rightarrow> bool" where
  "has_prefix s ps = (take 2 s \<in> set ps)"

definition digit_char :: "nat \<Rightarrow> char" where
  "digit_char d = char_of (48 + d)"

fun dec_digits :: "nat \<Rightarrow> string" where
  "dec_digits n =
     (if n < 10 then [digit_char n] else dec_digits (n div 10) @ [digit_char (n mod 10)])"

declare dec_digits.simps [simp del]

subsection \<open>\<^verbatim>\<open>parseInt\<close>\<close>

text \<open>
  \<^verbatim>\<open>parseInt(x)\<close> converts \<open>x\<close> to a string and reads an integer off its front: leading
  white space, an optional sign, an optional \<^verbatim>\<open>0x\<close> prefix, then as many digits as there
  are. Without a digit the result is NaN. The result is thus NaN or an integer, modelled as
  \<open>int option\<close> with \<open>None\<close> for NaN.
\<close>

definition parseInt_string :: "string \<Rightarrow> int option" where
  "parseInt_string s =
     (let s1 = dropWhile is_ws s;
          neg = (take 1 s1 = ''-'');
          s2 = (if take 1 s1 = ''-'' \<or> take 1 s1 = ''+'' then drop 1 s1 else s1);
          hex = has_prefix s2 [''0x'', ''0X''];
          radix = (if hex then 16 else 10);
          ds = leading_digits radix (if hex then drop 2 s2 else s2)
      in if ds = [] then None
         else Some (if neg then - int (digits_value radix ds) else int (digits_value radix ds)))"

text \<open>
  The string of a finite number is in plain decimal notation when its magnitude lies in
  \<open>[10\<^sup>-\<^sup>6, 10\<^sup>2\<^sup>1)\<close>, where \<^verbatim>\<open>parseInt\<close> reads the integer part (truncation towards zero), and
  in exponent notation otherwise, where it reads the one digit in front of the mantissa's
  point. \<^verbatim>\<open>"NaN"\<close> and \<^verbatim>\<open>"Infinity"\<close> hold no digit.
\<close>

definition lead_digit :: "rat \<Rightarrow> int" where
  \<comment> \<open>the first significant decimal digit of a positive number outside \<open>[10\<^sup>-\<^sup>6, 10\<^sup>2\<^sup>1)\<close>\<close>
  "lead_digit a =
     (if 1 \<le> a then
        (let n = nat \<lfloor>a\<rfloor> in int (n div 10 ^ (length (dec_digits n) - 1)))
      else
        (let y = a * 10 ^ length (dec_digits (nat \<lfloor>1 / a\<rfloor>)) in if 10 \<le> y then 1 else \<lfloor>y\<rfloor>))"

definition parseInt_number :: "jsnum \<Rightarrow> int option" where
  "parseInt_number n =
     (case n of
        Fin q \<Rightarrow>
          (let a = \<bar>q\<bar>;
               m = (if q = 0 then 0
                    else if 1 / 10 ^ 6 \<le> a \<and> a < 10 ^ 21 then \<lfloor>a\<rfloor>
                    else lead_digit a)
           in Some (if q < 0 then - m else m))
      | _ \<Rightarrow> None)"

fun parseInt :: "jsval \<Rightarrow> int option" where
  "parseInt (JNum n) = parseInt_number n"
| "parseInt (JStr s) = parseInt_string s"
| "parseInt JUndefined = None"
| "parseInt JNull = None"
| "parseInt (JBool _) = None"
| "parseInt (JObj _) = None"

definition num :: "int option \<Rightarrow> jsnum" where
  \<comment> \<open>the number \<^verbatim>\<open>parseInt\<close> returned\<close>
  "num r = (case r of None \<Rightarrow> NaN | Some i \<Rightarrow> Fin (of_int i))"

definition isNaN :: "int option \<Rightarrow> bool" where
  "isNaN r = (r = None)"

subsection \<open>Numbers as property keys\<close>

text \<open>
  \<^verbatim>\<open>obj[n]\<close> with a number \<open>n\<close> reads the property named by the string of \<open>n\<close>: decimal
  digits below \<open>10\<^sup>2\<^sup>1\<close>, exponent notation from there on (whose digits the model takes
  from the exact value).
\<close>

definition strip_zeros :: "string \<Rightarrow> string" where
  "strip_zeros ds = rev (dropWhile (\<lambda>c. c = CHR ''0'') (rev ds))"

definition exp_notation :: "nat \<Rightarrow> string" where
  "exp_notation n =
     (let ds = dec_digits n; frac = strip_zeros (tl ds)
      in take 1 ds @ (if frac = [] then [] else CHR ''.'' # frac)
           @ ''e+'' @ dec_digits (length ds - 1))"

definition to_key :: "int option \<Rightarrow> string" where
  "to_key r =
     (case r of
        None \<Rightarrow> ''NaN''
      | Some i \<Rightarrow>
          (if i < 0 then ''-'' else '''')
            @ (if \<bar>i\<bar> < 10 ^ 21 then dec_digits (nat \<bar>i\<bar>) else exp_notation (nat \<bar>i\<bar>)))"

subsection \<open>\<^verbatim>\<open>Number\<close>\<close>

text \<open>
  \<^verbatim>\<open>Number(x)\<close>: a string must be a numeric literal as a whole, white space trimmed: empty
  (zero), a signed \<^verbatim>\<open>Infinity\<close>, an unsigned hexadecimal, octal or binary literal, or a signed
  decimal literal with an optional fraction and exponent. Anything else is NaN.
\<close>

definition trim :: "string \<Rightarrow> string" where
  "trim s = rev (dropWhile is_ws (rev (dropWhile is_ws s)))"

definition radix_literal :: "nat \<Rightarrow> string \<Rightarrow> jsnum" where
  "radix_literal radix s =
     (let ds = leading_digits radix s
      in if s \<noteq> [] \<and> length ds = length s then Fin (of_nat (digits_value radix ds)) else NaN)"

definition exponent_part :: "string \<Rightarrow> int option" where
  \<comment> \<open>what follows the mantissa: nothing, or \<^verbatim>\<open>e\<close>, an optional sign and digits\<close>
  "exponent_part s =
     (if s = [] then Some 0
      else if take 1 s = ''e'' \<or> take 1 s = ''E'' then
        (let s1 = drop 1 s;
             neg = (take 1 s1 = ''-'');
             s2 = (if take 1 s1 = ''-'' \<or> take 1 s1 = ''+'' then drop 1 s1 else s1);
             ds = leading_digits 10 s2
         in if s2 \<noteq> [] \<and> length ds = length s2
            then Some (if neg then - int (digits_value 10 ds) else int (digits_value 10 ds))
            else None)
      else None)"

definition scale10 :: "rat \<Rightarrow> int \<Rightarrow> rat" where
  "scale10 x e = (if 0 \<le> e then x * 10 ^ nat e else x / 10 ^ nat (- e))"

definition decimal_literal :: "string \<Rightarrow> jsnum" where
  "decimal_literal s =
     (let neg = (take 1 s = ''-'');
          s1 = (if take 1 s = ''-'' \<or> take 1 s = ''+'' then drop 1 s else s);
          ip = leading_digits 10 s1;
          s2 = drop (length ip) s1;
          dot = (take 1 s2 = ''.'');
          fp = (if dot then leading_digits 10 (drop 1 s2) else []);
          s3 = (if dot then drop (1 + length fp) s2 else s2)
      in if ip = [] \<and> fp = [] then NaN
         else (case exponent_part s3 of
                 None \<Rightarrow> NaN
               | Some e \<Rightarrow>
                   (let m = scale10 (of_nat (digits_value 10 (ip @ fp))) (e - int (length fp))
                    in Fin (if neg then - m else m))))"

definition Number_string :: "string \<Rightarrow> jsnum" where
  "Number_string s =
     (let t = trim s in
      if t = [] then Fin 0
      else if t = ''Infinity'' \<or> t = ''+Infinity'' then PInf
      else if t = ''-Infinity'' then NInf
      else if has_prefix t [''0x'', ''0X''] then radix_literal 16 (drop 2 t)
      else if has_prefix t [''0o'', ''0O''] then radix_literal 8 (drop 2 t)
      else if has_prefix t [''0b'', ''0B''] then radix_literal 2 (drop 2 t)
      else decimal_literal t)"

fun Number :: "jsval \<Rightarrow> jsnum" where
  "Number JUndefined = NaN"
| "Number JNull = Fin 0"
| "Number (JBool b) = Fin (if b then 1 else 0)"
| "Number (JNum n) = n"
| "Number (JStr s) = Number_string s"
| "Number (JObj _) = NaN"

section \<open>Breakpoint resolution: \<^verbatim>\<open>breakpointValue\<close>\<close>

text \<open>
  One pass of the \<^verbatim>\<open>for (let k in mixed)\<close> loop. The state is the pair
  \<^verbatim>\<open>(matchedBreakpoint, matchedValue)\<close>. The value is read at \<^verbatim>\<open>mixed[breakpoint]\<close>, that is
  under the parsed number, not under \<open>k\<close> itself.
\<close>

definition breakpoint_step ::
  "(string \<times> jsval) list \<Rightarrow> jsnum \<Rightarrow> string \<Rightarrow> jsnum \<times> jsval \<Rightarrow> jsnum \<times> jsval" where
  "breakpoint_step mixed windowWidth k st =
     (let breakpoint = parseInt_string k;
          breakpointValRaw = get_prop mixed (to_key breakpoint);
          breakpointVal = parseInt breakpointValRaw
      in if isNaN breakpoint \<or> isNaN breakpointVal then st
         else if num_le windowWidth (num breakpoint) \<and> num_lt (num breakpoint) (fst st)
              then (num breakpoint, breakpointValRaw)
              else st)"

definition breakpointValue :: "jsval \<Rightarrow> jsnum \<Rightarrow> js_error + jsval" where
  "breakpointValue mixed windowWidth =
     (let valueAsNum = parseInt mixed in
      if num_lt (Fin (- 1)) (num valueAsNum) then Inr mixed
      else if typeof mixed \<noteq> ''object'' then Inr (JNum (Fin 0))
      else (case mixed of
              JObj props \<Rightarrow>
                Inr (snd (fold (breakpoint_step props windowWidth) (for_in_keys props)
                            (PInf, js_or (get_prop props ''default'') (JNum (Fin 0)))))
            | _ \<Rightarrow> Inl TypeError))"

text \<open>
  The last branch: the only value of type \<^verbatim>\<open>'object'\<close> besides an object is \<^verbatim>\<open>null\<close>, and
  reading \<^verbatim>\<open>mixed.default\<close> of \<^verbatim>\<open>null\<close> raises a TypeError.
\<close>


section \<open>The component's state and \<^verbatim>\<open>reCalculate\<close>\<close>

text \<open>
  The fields of the component that the layout code reads and writes: the props \<^verbatim>\<open>cols\<close>,
  \<^verbatim>\<open>gutter\<close> and \<^verbatim>\<open>fillGaps\<close>, the data \<^verbatim>\<open>displayColumns\<close> and \<^verbatim>\<open>displayGutter\<close>, and
  \<^verbatim>\<open>windowWidth\<close>, which is \<^verbatim>\<open>undefined\<close> (\<open>None\<close>) until the first recalculation. The
  presentational props (\<^verbatim>\<open>tag\<close>, \<^verbatim>\<open>css\<close>, \<^verbatim>\<open>columnTag\<close>, \<^verbatim>\<open>columnClass\<close>, \<^verbatim>\<open>columnAttr\<close>) play no
  part in the layout and are left out.
\<close>

record masonry =
  cols :: jsval
  gutter :: jsval
  fillGaps :: bool
  windowWidth :: "jsnum option"
  displayColumns :: jsnum
  displayGutter :: jsval

definition data :: "jsval \<Rightarrow> jsval \<Rightarrow> bool \<Rightarrow> masonry" where
  \<comment> \<open>a fresh component: \<^verbatim>\<open>data ()\<close> with the given props\<close>
  "data c g f =
     \<lparr>cols = c, gutter = g, fillGaps = f, windowWidth = None,
      displayColumns = Fin 2, displayGutter = JNum (Fin 0)\<rparr>"

text \<open>
  The global \<^verbatim>\<open>window\<close> is falsy, or an object whose \<^verbatim>\<open>innerWidth\<close> is a number.
\<close>

datatype window = NoWindow | Window jsnum

definition currentWidth :: "window \<Rightarrow> jsnum" where
  \<comment> \<open>\<^verbatim>\<open>(window ? window.innerWidth : null) || Infinity\<close>\<close>
  "currentWidth win =
     (case win of NoWindow \<Rightarrow> PInf | Window innerWidth \<Rightarrow> num_or innerWidth PInf)"

definition strict_eq :: "jsnum option \<Rightarrow> jsnum option \<Rightarrow> bool" where
  \<comment> \<open>\<^verbatim>\<open>===\<close> between values that are \<^verbatim>\<open>undefined\<close> or numbers\<close>
  "strict_eq a b =
     (case (a, b) of
        (None, None) \<Rightarrow> True
      | (Some x, Some y) \<Rightarrow> num_eq x y
      | _ \<Rightarrow> False)"

text \<open>
  A method returns the exception it raised, if any, and the state it left behind: a write
  made before a \<^verbatim>\<open>throw\<close> stays.
\<close>

definition reCalculateGutterSize :: "jsnum \<Rightarrow> masonry \<Rightarrow> (js_error + unit) \<times> masonry" where
  "reCalculateGutterSize w s =
     (case breakpointValue (gutter s) w of
        Inl e \<Rightarrow> (Inl e, s)
      | Inr v \<Rightarrow> (Inr (), s\<lparr>displayGutter := v\<rparr>))"

definition reCalculateColumnCount :: "jsnum \<Rightarrow> masonry \<Rightarrow> (js_error + unit) \<times> masonry" where
  "reCalculateColumnCount w s =
     (case breakpointValue (cols s) w of
        Inl e \<Rightarrow> (Inl e, s)
      | Inr newColumns \<Rightarrow>
          (Inr (), s\<lparr>displayColumns := Math_max (Fin 1) (num_or (Number newColumns) (Fin 0))\<rparr>))"

definition reCalculate :: "window \<Rightarrow> masonry \<Rightarrow> (js_error + unit) \<times> masonry" where
  "reCalculate win s =
     (let previousWindowWidth = windowWidth s;
          s1 = s\<lparr>windowWidth := Some (currentWidth win)\<rparr>
      in if strict_eq previousWindowWidth (windowWidth s1) then (Inr (), s1)
         else (case reCalculateColumnCount (currentWidth win) s1 of
                 (Inl e, s2) \<Rightarrow> (Inl e, s2)
               | (Inr _, s2) \<Rightarrow> reCalculateGutterSize (currentWidth win) s2))"

section \<open>Distribution into columns: \<^verbatim>\<open>_getChildItemsInColumnsArray\<close>\<close>

text \<open>
  Of a virtual node the method reads \<^verbatim>\<open>tag\<close>, \<^verbatim>\<open>elm\<close> (absent before the first render,
  else an element, of which only \<^verbatim>\<open>offsetHeight\<close> is read: a non-negative integer) and
  \<^verbatim>\<open>componentOptions\<close> with its \<^verbatim>\<open>tag\<close> and \<^verbatim>\<open>children\<close> (\<^verbatim>\<open>undefined\<close> for a component
  without slot content).
\<close>

datatype vnode =
    VNode (tag: "string option") (elm: "nat option") (componentOptions: "component_options option")
and component_options =
    ComponentOptions (co_tag: "string option") (children: "vnode list option")

definition has_tag :: "vnode \<Rightarrow> bool" where
  \<comment> \<open>the filter \<^verbatim>\<open>child => child.tag\<close>: an empty string is falsy\<close>
  "has_tag child = (case tag child of Some t \<Rightarrow> t \<noteq> [] | None \<Rightarrow> False)"

definition unwrapTransitionGroup :: "vnode list \<Rightarrow> vnode list option" where
  \<comment> \<open>lines 157 to 160; \<open>None\<close> is \<^verbatim>\<open>undefined\<close>\<close>
  "unwrapTransitionGroup vnodes =
     (case vnodes of
        [] \<Rightarrow> Some vnodes
      | vnode # _ \<Rightarrow>
          (case componentOptions vnode of
             None \<Rightarrow> Some vnodes
           | Some co \<Rightarrow>
               if co_tag co = Some ''transition-group'' then children co else Some vnodes))"

text \<open>
  \<^verbatim>\<open>getShortestColumnIndex\<close>: the loop carries \<^verbatim>\<open>(trgIndex, trgHeight)\<close>, both \<^verbatim>\<open>undefined\<close>
  at the start, and returns \<^verbatim>\<open>trgIndex\<close>.
\<close>

fun shortest_loop :: "nat list \<Rightarrow> nat \<Rightarrow> (nat \<times> nat) option \<Rightarrow> (nat \<times> nat) option" where
  "shortest_loop [] srcIndex trg = trg"
| "shortest_loop (srcHeight # rest) srcIndex trg =
     shortest_loop rest (Suc srcIndex)
       (case trg of
          None \<Rightarrow> Some (srcIndex, srcHeight)
        | Some (trgIndex, trgHeight) \<Rightarrow>
            if srcHeight < trgHeight then Some (srcIndex, srcHeight) else trg)"

definition getShortestColumnIndex :: "nat list \<Rightarrow> nat option" where
  "getShortestColumnIndex heights = map_option fst (shortest_loop heights 0 None)"

text \<open>
  \<^verbatim>\<open>columns\<close> starts as \<^verbatim>\<open>[]\<close> and a column is created when its first child arrives, so the
  array can be shorter than the column count and can have holes (\<open>None\<close>). A column index
  that is not an array index (\<^verbatim>\<open>NaN\<close> from \<^verbatim>\<open>index % 0\<close>, \<^verbatim>\<open>undefined\<close> from an empty
  \<^verbatim>\<open>heights\<close>) names an ordinary property, which leaves the array's elements as they are.
\<close>

type_synonym columns = "vnode list option list"

definition js_mod :: "nat \<Rightarrow> nat \<Rightarrow> nat option" where
  \<comment> \<open>\<^verbatim>\<open>index % n\<close> on non-negative integers: NaN when \<open>n\<close> is zero\<close>
  "js_mod i n = (if n = 0 then None else Some (i mod n))"

definition push_column :: "columns \<Rightarrow> nat option \<Rightarrow> vnode \<Rightarrow> columns" where
  \<comment> \<open>lines 179 to 184\<close>
  "push_column columns colIndex vnode =
     (case colIndex of
        None \<Rightarrow> columns
      | Some i \<Rightarrow>
          if i < length columns then
            columns[i := Some ((case columns ! i of None \<Rightarrow> [] | Some col \<Rightarrow> col) @ [vnode])]
          else columns @ replicate (i - length columns) None @ [Some [vnode]])"

definition add_height :: "nat list \<Rightarrow> nat option \<Rightarrow> nat \<Rightarrow> nat list" where
  \<comment> \<open>\<^verbatim>\<open>heights[colIndex] += offsetHeight\<close>\<close>
  "add_height heights colIndex offsetHeight =
     (case colIndex of
        None \<Rightarrow> heights
      | Some i \<Rightarrow> heights[i := heights ! i + offsetHeight])"

definition place :: "bool \<Rightarrow> nat \<Rightarrow> nat \<times> vnode \<Rightarrow> columns \<times> nat list \<Rightarrow> columns \<times> nat list" where
  \<comment> \<open>the \<^verbatim>\<open>forEach\<close> callback, lines 169 to 184, on the pair of \<^verbatim>\<open>columns\<close> and \<^verbatim>\<open>heights\<close>;
      \<open>fill\<close> is \<^verbatim>\<open>this.fillGaps\<close> and \<open>n\<close> is \<^verbatim>\<open>this.displayColumns\<close>\<close>
  "place fill n =
     (\<lambda>(index, vnode) (columns, heights).
        case (if fill then elm vnode else None) of
          None \<Rightarrow> (push_column columns (js_mod index n) vnode, heights)
        | Some offsetHeight \<Rightarrow>
            (let colIndex = getShortestColumnIndex heights
             in (push_column columns colIndex vnode, add_height heights colIndex offsetHeight)))"

definition place_all :: "bool \<Rightarrow> nat \<Rightarrow> vnode list \<Rightarrow> columns \<times> nat list" where
  \<comment> \<open>the \<^verbatim>\<open>forEach\<close> over the filtered children, from empty columns and zeroed heights\<close>
  "place_all fill n vnodes = fold (place fill n) (enumerate 0 vnodes) ([], replicate n 0)"

definition distribute :: "bool \<Rightarrow> nat \<Rightarrow> vnode list \<Rightarrow> columns" where
  \<comment> \<open>lines 163 to 188, for a column count that is an array length\<close>
  "distribute fill n vnodes = fst (place_all fill n (filter has_tag vnodes))"

definition array_length :: "jsnum \<Rightarrow> nat option" where
  \<comment> \<open>\<^verbatim>\<open>new Array(len)\<close> accepts an integer in \<open>[0, 2\<^sup>3\<^sup>2)\<close> and raises a RangeError otherwise\<close>
  "array_length len =
     (case len of
        Fin q \<Rightarrow> if q = of_int \<lfloor>q\<rfloor> \<and> 0 \<le> q \<and> q < 2 ^ 32 then Some (nat \<lfloor>q\<rfloor>) else None
      | _ \<Rightarrow> None)"

definition getChildItemsInColumnsArray :: "masonry \<Rightarrow> vnode list option \<Rightarrow> js_error + columns" where
  \<comment> \<open>the second argument is \<^verbatim>\<open>this.$slots.default\<close>\<close>
  "getChildItemsInColumnsArray s slot =
     (let vnodes = unwrapTransitionGroup (case slot of None \<Rightarrow> [] | Some vs \<Rightarrow> vs)
      in case array_length (displayColumns s) of
           None \<Rightarrow> Inl RangeError
         | Some n \<Rightarrow>
             (case vnodes of
                None \<Rightarrow> Inl TypeError
              | Some vs \<Rightarrow> Inr (distribute (fillGaps s) n vs)))"

text \<open>
  \<^verbatim>\<open>vnodes.filter\<close> on \<^verbatim>\<open>undefined\<close> raises a TypeError; it comes after \<^verbatim>\<open>new Array\<close>.
\<close>

section \<open>Notions used to state the properties\<close>



text \<open>
  Nodes for the examples: an element with a tag and, once rendered, a height; and a
  \<^verbatim>\<open><transition-group>\<close> component around its slot content.
\<close>

definition child :: "string \<Rightarrow> nat option \<Rightarrow> vnode" where
  "child t h = VNode (Some t) h None"

definition transition_group :: "vnode list option \<Rightarrow> vnode" where
  "transition_group cs =
     VNode (Some ''vue-component-1-transition-group'') None
       (Some (ComponentOptions (Some ''transition-group'') cs))"

section \<open>Properties of breakpoint resolution\<close>

subsection \<open>The loop\<close>














subsection \<open>The smallest breakpoint at or above the width\<close>

text \<open>
  The two theorems on objects speak of the set of keys only: the order in which the loop
  visits them plays no part in the result.
\<close>




subsection \<open>The fallback when no breakpoint matches\<close>




subsection \<open>Values that are not objects\<close>

lemma breakpointValue_numeric:
  "num_lt (Fin (- 1)) (num (parseInt v)) \<Longrightarrow> breakpointValue v w = Inr v"
  by (simp add: breakpointValue_def)


lemma breakpointValue_returns:
  "v \<noteq> JNull \<Longrightarrow> \<exists>r. breakpointValue v w = Inr r"
  by (cases v) (auto simp: breakpointValue_def Let_def)






lemma reCalculate_returns:
  assumes "cols s \<noteq> JNull" and "gutter s \<noteq> JNull"
  shows "fst (reCalculate win s) = Inr ()"
proof -
  let ?w = "currentWidth win"
  let ?s1 = "s\<lparr>windowWidth := Some ?w\<rparr>"
  obtain c where c: "breakpointValue (cols s) ?w = Inr c"
    using breakpointValue_returns [OF assms(1)] by blast
  obtain g where g: "breakpointValue (gutter s) ?w = Inr g"
    using breakpointValue_returns [OF assms(2)] by blast
  show ?thesis
    by (simp add: reCalculate_def Let_def reCalculateColumnCount_def reCalculateGutterSize_def c g)
qed

text \<open>
  Claim C8 at the input \<^verbatim>\<open>null\<close>: with \<^verbatim>\<open>cols\<close> or \<^verbatim>\<open>gutter\<close> set to \<^verbatim>\<open>null\<close>, the first
  recalculation of a fresh component raises the TypeError, whatever the window; the column
  count stays at its initial 2. With any other values of the model for \<^verbatim>\<open>cols\<close> and
  \<^verbatim>\<open>gutter\<close>, malformed or not, resolution and recalculation return normally
  (\<open>breakpointValue_returns\<close>, \<open>reCalculate_returns\<close>).
\<close>

theorem reCalculate_null_raises:
  "fst (reCalculate win (data JNull g f)) = Inl TypeError
   \<and> fst (reCalculate win (data (JNum (Fin 2)) JNull f)) = Inl TypeError
   \<and> displayColumns (snd (reCalculate win (data JNull g f))) = Fin 2"
proof -
  have two: "breakpointValue (JNum (Fin 2)) w = Inr (JNum (Fin 2))" for w
    by (rule breakpointValue_numeric) code_simp
  have null: "breakpointValue JNull w = Inl TypeError" for w
    by (simp add: breakpointValue_def num_def)
  show ?thesis
    by (simp add: reCalculate_def data_def strict_eq_def reCalculateColumnCount_def
        reCalculateGutterSize_def two null)
qed

section \<open>Properties of the recalculation\<close>

subsection \<open>The column count is at least one\<close>








subsection \<open>An unchanged width\<close>

lemma currentWidth_not_NaN: "currentWidth win \<noteq> NaN"
  by (cases win) (auto simp: currentWidth_def num_or_def num_truthy_def)

lemma strict_eq_same: "a \<noteq> NaN \<Longrightarrow> strict_eq (Some a) (Some a)"
  by (cases a) (auto simp: strict_eq_def)

lemma windowWidth_reCalculate:
  "windowWidth (snd (reCalculate win s)) = Some (currentWidth win)"
proof -
  let ?s1 = "s\<lparr>windowWidth := Some (currentWidth win)\<rparr>"
  have c: "windowWidth (snd (reCalculateColumnCount v t)) = windowWidth t" for v t
    by (cases "breakpointValue (cols t) v") (simp_all add: reCalculateColumnCount_def)
  have g: "windowWidth (snd (reCalculateGutterSize v t)) = windowWidth t" for v t
    by (cases "breakpointValue (gutter t) v") (simp_all add: reCalculateGutterSize_def)
  have "windowWidth (snd (reCalculateColumnCount (currentWidth win) ?s1)) = Some (currentWidth win)"
    by (simp add: c)
  then show ?thesis
    by (cases "reCalculateColumnCount (currentWidth win) ?s1")
      (auto simp: reCalculate_def Let_def g split: sum.splits)
qed

text \<open>
  Claim C9. When the recorded width equals the current one, \<^verbatim>\<open>reCalculate\<close> returns at its
  guard and the whole state is as before: \<^verbatim>\<open>displayColumns\<close> and \<^verbatim>\<open>displayGutter\<close>, the data
  whose change makes the host render again, are not assigned. In particular a second call
  in a row under the same window changes nothing, whatever the first call did.
\<close>

theorem reCalculate_same_width_noop:
  "(windowWidth s = Some (currentWidth win) \<longrightarrow> reCalculate win s = (Inr (), s))
   \<and> reCalculate win (snd (reCalculate win s)) = (Inr (), snd (reCalculate win s))"
proof -
  have noop: "reCalculate win t = (Inr (), t)" if "windowWidth t = Some (currentWidth win)" for t
    using that strict_eq_same [OF currentWidth_not_NaN [of win]]
    by (simp add: reCalculate_def)
  show ?thesis
    using noop [of s] noop [OF windowWidth_reCalculate [of win s]] by simp
qed

theorem reCalculate_same_width_noop_witness:
  "windowWidth (snd (reCalculate (Window (Fin 800)) (data (JNum (Fin 3)) (JStr ''30px'') False)))
     = Some (currentWidth (Window (Fin 800)))
   \<and> snd (reCalculate (Window (Fin 800)) (data (JNum (Fin 3)) (JStr ''30px'') False))
     = \<lparr>cols = JNum (Fin 3), gutter = JStr ''30px'', fillGaps = False, windowWidth = Some (Fin 800),
        displayColumns = Fin 3, displayGutter = JStr ''30px''\<rparr>
   \<and> reCalculate (Window (Fin 800))
        \<lparr>cols = JNum (Fin 3), gutter = JStr ''30px'', fillGaps = False, windowWidth = Some (Fin 800),
         displayColumns = Fin 3, displayGutter = JStr ''30px''\<rparr>
     = (Inr (),
        \<lparr>cols = JNum (Fin 3), gutter = JStr ''30px'', fillGaps = False, windowWidth = Some (Fin 800),
         displayColumns = Fin 3, displayGutter = JStr ''30px''\<rparr>)"
proof -
  let ?s = "data (JNum (Fin 3)) (JStr ''30px'') False"
  let ?t = "\<lparr>cols = JNum (Fin 3), gutter = JStr ''30px'', fillGaps = False, windowWidth = Some (Fin 800),
        displayColumns = Fin 3, displayGutter = JStr ''30px''\<rparr>"
  have h1: "snd (reCalculate (Window (Fin 800)) ?s) = ?t"
    by code_simp
  have h2: "windowWidth ?t = Some (currentWidth (Window (Fin 800)))"
    by code_simp
  show ?thesis
    using reCalculate_same_width_noop [of ?t "Window (Fin 800)"] h1 h2 by simp
qed

section \<open>Properties of the distribution\<close>

subsection \<open>Columns, the shortest column and the loop\<close>

text \<open>
  The method is \<open>distribute\<close> once \<^verbatim>\<open>new Array\<close> and the unwrapping have gone through, as
  they do for a column count \<open>n\<close> below \<open>2\<^sup>3\<^sup>2\<close>.
\<close>

lemma array_length_of_nat: "n < 2 ^ 32 \<Longrightarrow> array_length (Fin (of_nat n)) = Some n"
  by (simp add: array_length_def)

lemma getChildItemsInColumnsArray_distribute:
  "array_length (displayColumns s) = Some n \<Longrightarrow>
   unwrapTransitionGroup vnodes = Some vs \<Longrightarrow>
   getChildItemsInColumnsArray s (Some vnodes) = Inr (distribute (fillGaps s) n vs)"
  by (simp add: getChildItemsInColumnsArray_def)



















subsection \<open>Filling gaps\<close>



subsection \<open>Round robin\<close>










subsection \<open>The number of columns returned\<close>






subsection \<open>A transition group in front\<close>

text \<open>
  Claim C10. Only the first node of the slot is inspected. If it is a
  \<^verbatim>\<open>transition-group\<close> component, the nodes that follow it have no effect on the result, and
  the result is the distribution of the component's own children. If it is not, every node
  of the slot is distributed as it is, a \<^verbatim>\<open>transition-group\<close> further back included.
\<close>

theorem getChildItemsInColumnsArray_unwraps_first_only:
  "(componentOptions v = Some co \<and> co_tag co = Some ''transition-group'' \<longrightarrow>
      getChildItemsInColumnsArray s (Some (v # siblings)) = getChildItemsInColumnsArray s (Some [v])
      \<and> (\<forall>n cs. array_length (displayColumns s) = Some n \<and> children co = Some cs \<longrightarrow>
            getChildItemsInColumnsArray s (Some (v # siblings))
              = Inr (distribute (fillGaps s) n cs)))
   \<and> ((componentOptions v = None
        \<or> (\<exists>co. componentOptions v = Some co \<and> co_tag co \<noteq> Some ''transition-group'')) \<longrightarrow>
      (\<forall>n. array_length (displayColumns s) = Some n \<longrightarrow>
            getChildItemsInColumnsArray s (Some (v # siblings))
              = Inr (distribute (fillGaps s) n (v # siblings))))"
proof -
  have wrapper: "unwrapTransitionGroup (v # rest) = children co"
    if "componentOptions v = Some co" "co_tag co = Some ''transition-group''" for rest
    using that by (simp add: unwrapTransitionGroup_def)
  have plain: "unwrapTransitionGroup (v # siblings) = Some (v # siblings)"
    if "componentOptions v = None
        \<or> (\<exists>co. componentOptions v = Some co \<and> co_tag co \<noteq> Some ''transition-group'')"
    using that by (auto simp: unwrapTransitionGroup_def)
  have siblings_dropped:
    "getChildItemsInColumnsArray s (Some (v # siblings)) = getChildItemsInColumnsArray s (Some [v])"
    if "componentOptions v = Some co" "co_tag co = Some ''transition-group''"
    using wrapper [OF that, of siblings] wrapper [OF that, of "[]"]
    by (simp add: getChildItemsInColumnsArray_def)
  have own_children:
    "getChildItemsInColumnsArray s (Some (v # siblings)) = Inr (distribute (fillGaps s) n cs)"
    if "componentOptions v = Some co" "co_tag co = Some ''transition-group''"
      "array_length (displayColumns s) = Some n" "children co = Some cs" for n cs
    using wrapper [OF that(1,2), of siblings] that(3,4)
    by (simp add: getChildItemsInColumnsArray_distribute)
  have all_nodes:
    "getChildItemsInColumnsArray s (Some (v # siblings))
       = Inr (distribute (fillGaps s) n (v # siblings))"
    if "componentOptions v = None
        \<or> (\<exists>co. componentOptions v = Some co \<and> co_tag co \<noteq> Some ''transition-group'')"
      "array_length (displayColumns s) = Some n" for n
    using plain [OF that(1)] that(2) by (simp add: getChildItemsInColumnsArray_distribute)
  show ?thesis
    using siblings_dropped own_children all_nodes by blast
qed

theorem getChildItemsInColumnsArray_unwraps_first_only_witness:
  "getChildItemsInColumnsArray (data (JNum (Fin 2)) (JNum (Fin 0)) False)
     (Some [transition_group (Some [child ''a'' None, child ''b'' None]), child ''c'' None])
   = Inr [Some [child ''a'' None], Some [child ''b'' None]]
   \<and> getChildItemsInColumnsArray (data (JNum (Fin 2)) (JNum (Fin 0)) False)
     (Some [child ''c'' None, transition_group (Some [child ''a'' None, child ''b'' None])])
   = Inr [Some [child ''c'' None],
          Some [transition_group (Some [child ''a'' None, child ''b'' None])]]
   \<and> componentOptions (transition_group (Some [child ''a'' None, child ''b'' None]))
       = Some (ComponentOptions (Some ''transition-group'') (Some [child ''a'' None, child ''b'' None]))
   \<and> componentOptions (child ''c'' None) = None
   \<and> array_length (displayColumns (data (JNum (Fin 2)) (JNum (Fin 0)) False)) = Some 2"
proof -
  let ?s = "data (JNum (Fin 2)) (JNum (Fin 0)) False"
  let ?cs = "[child ''a'' None, child ''b'' None]"
  let ?co = "ComponentOptions (Some ''transition-group'') (Some ?cs)"
  have h1: "componentOptions (transition_group (Some ?cs)) = Some ?co"
    by (simp add: transition_group_def)
  have h2: "co_tag ?co = Some ''transition-group''" "children ?co = Some ?cs"
    by simp_all
  have h3: "array_length (displayColumns ?s) = Some 2"
    by code_simp
  have h4: "componentOptions (child ''c'' None) = None"
    by (simp add: child_def)
  have e1: "distribute (fillGaps ?s) 2 ?cs = [Some [child ''a'' None], Some [child ''b'' None]]"
    by code_simp
  have e2: "distribute (fillGaps ?s) 2 [child ''c'' None, transition_group (Some ?cs)]
      = [Some [child ''c'' None], Some [transition_group (Some ?cs)]]"
    by code_simp
  have a: "getChildItemsInColumnsArray ?s (Some [transition_group (Some ?cs), child ''c'' None])
      = Inr (distribute (fillGaps ?s) 2 ?cs)"
    using getChildItemsInColumnsArray_unwraps_first_only
        [of "transition_group (Some ?cs)" ?co ?s "[child ''c'' None]"] h1 h2 h3
    by blast
  have b: "getChildItemsInColumnsArray ?s (Some [child ''c'' None, transition_group (Some ?cs)])
      = Inr (distribute (fillGaps ?s) 2 [child ''c'' None, transition_group (Some ?cs)])"
    using getChildItemsInColumnsArray_unwraps_first_only
        [of "child ''c'' None" _ ?s "[transition_group (Some ?cs)]"] h3 h4
    by blast
  show ?thesis
    unfolding a b e1 e2 by (intro conjI refl h1 h3 h4)
qed

end
